theory Spec2Isabelle
  imports Main "HOL-Library.Word"
begin

section \<open>The upload scheduler of package upsched\<close>

text \<open>
  The scheduler keeps a registry (a concurrent hash map) from upload keys to
  \<open>upload\<close> values; every upload owns a pointer to a single-shot timer of Go's
  \<open>time\<close> package. The embedding makes the shared state explicit: the
  registry is a map, timers live in a store addressed by natural numbers, the
  monotonic clock is an integer count of nanoseconds, and an invocation of a
  callback is an entry appended to a log. Every operation is one atomic step
  on that state and returns its Go error as an option.
\<close>

subsection \<open>Errors, durations, byte sources and sinks\<close>

text \<open>
  \<open>errors.New msg\<close> is \<open>New msg\<close>; \<open>fmt.Errorf "msg: %w" e\<close> is
  \<open>Wrap msg e\<close>.
\<close>

datatype error = New string | Wrap string error

text \<open>A \<open>time.Duration\<close> is a signed 64-bit count of nanoseconds.\<close>

type_synonym Duration = "64 word"

definition Second :: Duration where
  "Second = 1000000000"

type_synonym byte = "8 word"

text \<open>
  The chunk handed to \<open>Append\<close> is a readable source: the bytes it delivers
  and the error, if any, that its \<open>Read\<close> reports after them in place of the
  end of the input.
\<close>

record chunk =
  payload :: "byte list"
  read_err :: "error option"

text \<open>
  The destination is a writer: the bytes it has accepted so far and, when it
  is going to fail, the number of further bytes it accepts before its
  \<open>Write\<close> returns the given error.
\<close>

record sink =
  written :: "byte list"
  write_err :: "(nat \<times> error) option"

text \<open>
  \<open>io.Copy dst src\<close> moves bytes until the source is exhausted or the first
  error: a failing write wins over the read error that would have followed it.
\<close>

definition io_Copy :: "sink \<Rightarrow> chunk \<Rightarrow> error option \<times> sink" where
  "io_Copy dst src =
     (case write_err dst of
        None \<Rightarrow> (read_err src, dst\<lparr>written := written dst @ payload src\<rparr>)
      | Some (room, e) \<Rightarrow>
          if room < length (payload src)
          then (Some e, dst\<lparr>written := written dst @ take room (payload src),
                            write_err := Some (0, e)\<rparr>)
          else (read_err src,
                dst\<lparr>written := written dst @ payload src,
                    write_err := Some (room - length (payload src), e)\<rparr>))"

subsection \<open>Timers and the scheduler state\<close>

text \<open>
  A \<open>time.Timer\<close> made by \<open>time.AfterFunc\<close>: \<open>when\<close> is the absolute
  deadline while the timer is armed and \<open>None\<close> once it was stopped or has
  fired. The function it runs is the closure \<open>f\<close> of \<open>Prepare\<close>, which
  captures the key and the callback.
\<close>

record ('k, 'c) Timer =
  "when" :: "int option"
  f_key :: 'k
  f_cb :: 'c

record upload =
  timeout :: Duration
  timer :: nat

text \<open>
  \<open>us_m\<close> is the field \<open>m\<close> of the scheduler. \<open>calls\<close> records each
  invocation \<open>cb(k, err)\<close> in order.
\<close>

record ('k, 'c) sched =
  us_m :: "'k \<rightharpoonup> upload"
  timers :: "nat \<rightharpoonup> ('k, 'c) Timer"
  next_timer :: nat
  now :: int
  calls :: "('c \<times> 'k \<times> error option) list"

definition NewScheduler :: "('k, 'c) sched" where
  "NewScheduler = \<lparr>us_m = Map.empty, timers = Map.empty, next_timer = 0,
                    now = 0, calls = []\<rparr>"

text \<open>
  The deadline of a timer armed for \<open>d\<close> at clock \<open>t\<close>: a duration that is
  not positive makes the timer due at once. The clock of the model is
  unbounded, so the deadline is never clipped.
\<close>

definition when_ns :: "int \<Rightarrow> Duration \<Rightarrow> int" where
  "when_ns t d = (if sint d \<le> 0 then t else t + sint d)"

definition AfterFunc :: "Duration \<Rightarrow> 'k \<Rightarrow> 'c \<Rightarrow> ('k, 'c) sched \<Rightarrow> nat \<times> ('k, 'c) sched" where
  "AfterFunc d k cb s =
     (next_timer s,
      s\<lparr>timers := (timers s)(next_timer s \<mapsto>
             \<lparr>when = Some (when_ns (now s) d), f_key = k, f_cb = cb\<rparr>),
        next_timer := Suc (next_timer s)\<rparr>)"

definition timer_Stop :: "nat \<Rightarrow> ('k, 'c) sched \<Rightarrow> ('k, 'c) sched" where
  "timer_Stop p s =
     s\<lparr>timers := (timers s)(p := map_option (\<lambda>t. t\<lparr>when := None\<rparr>) (timers s p))\<rparr>"

definition timer_Reset :: "nat \<Rightarrow> Duration \<Rightarrow> ('k, 'c) sched \<Rightarrow> ('k, 'c) sched" where
  "timer_Reset p d s =
     s\<lparr>timers := (timers s)(p := map_option
          (\<lambda>t. t\<lparr>when := Some (when_ns (now s) d)\<rparr>) (timers s p))\<rparr>"

subsection \<open>Prepare, Append and Finish\<close>

definition Prepare :: "'k \<Rightarrow> Duration \<Rightarrow> 'c \<Rightarrow> ('k, 'c) sched \<Rightarrow> error option \<times> ('k, 'c) sched" where
  "Prepare k tmo cb s =
     (case us_m s k of
        Some _ \<Rightarrow> (Some (New ''upload key already exists''), s)
      | None \<Rightarrow>
          let d = Second * tmo;
              (p, s1) = AfterFunc d k cb s
          in (None, s1\<lparr>us_m := (us_m s1)(k \<mapsto> \<lparr>timeout = tmo, timer = p\<rparr>)\<rparr>))"

text \<open>
  The deferred \<open>Reset\<close> runs on both exits that follow it, after the copy.
\<close>

definition Append :: "'k \<Rightarrow> chunk \<Rightarrow> sink \<Rightarrow> ('k, 'c) sched \<Rightarrow> error option \<times> sink \<times> ('k, 'c) sched" where
  "Append k ch dst s =
     (case us_m s k of
        None \<Rightarrow> (Some (New ''upload key does not exist''), dst, s)
      | Some u \<Rightarrow>
          let s1 = timer_Stop (timer u) s;
              (err, dst') = io_Copy dst ch;
              s2 = timer_Reset (timer u) (timeout u) s1
          in (case err of
                Some e \<Rightarrow> (Some (Wrap ''unable to append chunk to destination file'' e), dst', s2)
              | None \<Rightarrow> (None, dst', s2)))"

definition Finish :: "'k \<Rightarrow> ('k, 'c) sched \<Rightarrow> error option \<times> ('k, 'c) sched" where
  "Finish k s =
     (case us_m s k of
        None \<Rightarrow> (Some (New ''upload key does not exist''), s)
      | Some u \<Rightarrow>
          let s1 = timer_Stop (timer u) s
          in (None, s1\<lparr>us_m := (us_m s1)(k := None)\<rparr>))"

subsection \<open>The run-time system: the clock and firing timers\<close>

text \<open>The closure \<open>f\<close> that \<open>Prepare\<close> hands to \<open>time.AfterFunc\<close>.\<close>

definition timer_f :: "'k \<Rightarrow> 'c \<Rightarrow> ('k, 'c) sched \<Rightarrow> ('k, 'c) sched" where
  "timer_f k cb s =
     (case us_m s k of
        Some _ \<Rightarrow> (let (err, s1) = Finish k s in s1\<lparr>calls := calls s1 @ [(cb, k, err)]\<rparr>)
      | None \<Rightarrow> s)"

text \<open>
  A timer is due when it is armed and its deadline has been reached. The
  run-time system fires a due timer: the timer is no longer armed and its
  function runs. Firing a timer that is not due does nothing.
\<close>

definition due :: "nat \<Rightarrow> ('k, 'c) sched \<Rightarrow> bool" where
  "due p s =
     (case timers s p of
        None \<Rightarrow> False
      | Some t \<Rightarrow> (case when t of None \<Rightarrow> False | Some w \<Rightarrow> w \<le> now s))"

definition fire :: "nat \<Rightarrow> ('k, 'c) sched \<Rightarrow> ('k, 'c) sched" where
  "fire p s =
     (case timers s p of
        None \<Rightarrow> s
      | Some t \<Rightarrow>
          if due p s then timer_f (f_key t) (f_cb t) (timer_Stop p s) else s)"

definition advance :: "nat \<Rightarrow> ('k, 'c) sched \<Rightarrow> ('k, 'c) sched" where
  "advance dt s = s\<lparr>now := now s + int dt\<rparr>"

text \<open>
  \<open>sleep dt\<close>: the clock moves on by \<open>dt\<close> nanoseconds and the run-time system
  fires every timer that has become due.
\<close>

definition fire_due :: "('k, 'c) sched \<Rightarrow> ('k, 'c) sched" where
  "fire_due s = fold fire [0..<next_timer s] s"

definition sleep :: "nat \<Rightarrow> ('k, 'c) sched \<Rightarrow> ('k, 'c) sched" where
  "sleep dt s = fire_due (advance dt s)"

subsection \<open>Example values\<close>

definition demo_prepared :: "(nat, string) sched" where
  "demo_prepared = snd (Prepare 1 2 ''onExpire'' NewScheduler)"

definition demo_chunk :: chunk where
  "demo_chunk = \<lparr>payload = [1, 2, 3], read_err = None\<rparr>"

definition demo_sink :: sink where
  "demo_sink = \<lparr>written = [], write_err = None\<rparr>"

definition full_sink :: sink where
  "full_sink = \<lparr>written = [], write_err = Some (1, New ''no space left on device'')\<rparr>"

subsection \<open>Events and runs\<close>






text \<open>
  The invariant of the states a run reaches: timers are allocated below the
  allocation counter, the timer of every session in the registry is armed
  and finalizes that session's key, and every armed timer is the timer of
  the session of its key.
\<close>

definition alloc_ok :: "('k, 'c) sched \<Rightarrow> bool" where
  "alloc_ok s = (\<forall>p. next_timer s \<le> p \<longrightarrow> timers s p = None)"

definition sess_ok :: "('k, 'c) sched \<Rightarrow> bool" where
  "sess_ok s = (\<forall>k u. us_m s k = Some u \<longrightarrow>
     (\<exists>t. timers s (timer u) = Some t \<and> f_key t = k \<and> when t \<noteq> None))"

definition arm_ok :: "('k, 'c) sched \<Rightarrow> bool" where
  "arm_ok s = (\<forall>p t. timers s p = Some t \<longrightarrow> when t \<noteq> None \<longrightarrow>
     (\<exists>u. us_m s (f_key t) = Some u \<and> timer u = p))"

definition sched_inv :: "('k, 'c) sched \<Rightarrow> bool" where
  "sched_inv s = (alloc_ok s \<and> sess_ok s \<and> arm_ok s)"

text \<open>A retired timer: stopped or fired, and no session holds it any more.\<close>

definition retired :: "nat \<Rightarrow> ('k, 'c) sched \<Rightarrow> bool" where
  "retired p s =
     ((\<exists>t. timers s p = Some t \<and> when t = None) \<and>
      (\<forall>k u. us_m s k = Some u \<longrightarrow> timer u \<noteq> p))"

section \<open>Properties\<close>

lemmas sched_defs =
  Prepare_def Append_def Finish_def AfterFunc_def timer_Stop_def timer_Reset_def
  timer_f_def due_def fire_def advance_def

lemmas demo_defs =
  demo_prepared_def demo_chunk_def demo_sink_def full_sink_def NewScheduler_def
  when_ns_def Second_def io_Copy_def

subsection \<open>What each operation does to the state\<close>


lemma Prepare_absent:
  "us_m s k = None \<Longrightarrow>
     Prepare k tmo cb s =
       (None, s\<lparr>timers := (timers s)(next_timer s \<mapsto>
                   \<lparr>when = Some (when_ns (now s) (Second * tmo)), f_key = k, f_cb = cb\<rparr>),
                 next_timer := Suc (next_timer s),
                 us_m := (us_m s)(k \<mapsto> \<lparr>timeout = tmo, timer = next_timer s\<rparr>)\<rparr>)"
  by (simp add: Prepare_def AfterFunc_def)


lemma Append_active:
  "us_m s k = Some u \<Longrightarrow>
     snd (snd (Append k ch dst s)) =
       s\<lparr>timers := (timers s)(timer u := map_option
            (\<lambda>t. t\<lparr>when := Some (when_ns (now s) (timeout u))\<rparr>) (timers s (timer u)))\<rparr>"
  by (simp add: Append_def timer_Stop_def timer_Reset_def option.map_comp comp_def Let_def
      split: option.splits prod.splits)

lemma Append_absent:
  "us_m s k = None \<Longrightarrow> Append k ch dst s = (Some (New ''upload key does not exist''), dst, s)"
  by (simp add: Append_def)



subsection \<open>The invariant is kept by every step\<close>







lemma inv_calls_update [simp]: "sched_inv (s\<lparr>calls := c\<rparr>) = sched_inv s"
  by (simp add: sched_inv_def alloc_ok_def sess_ok_def arm_ok_def)











lemma retired_calls_update [simp]: "retired p (s\<lparr>calls := c\<rparr>) = retired p s"
  by (simp add: retired_def)











lemma filter_upt_none: "(\<And>p. p < n \<Longrightarrow> \<not> P p) \<Longrightarrow> filter P [0..<n] = []"
  by (simp add: filter_empty_conv)



subsection \<open>The registry and the callback log, step by step\<close>














subsection \<open>Copying and durations\<close>

lemma io_Copy_written:
  "\<exists>n. written (snd (io_Copy dst ch)) = written dst @ take n (payload ch)"
proof (cases "write_err dst")
  case None
  then have "written (snd (io_Copy dst ch)) = written dst @ take (length (payload ch)) (payload ch)"
    by (simp add: io_Copy_def)
  then show ?thesis ..
next
  case (Some re)
  obtain room er where re: "re = (room, er)" by (cases re)
  show ?thesis
  proof (cases "room < length (payload ch)")
    case True
    then have "written (snd (io_Copy dst ch)) = written dst @ take room (payload ch)"
      using Some re by (simp add: io_Copy_def)
    then show ?thesis ..
  next
    case False
    then have "written (snd (io_Copy dst ch)) = written dst @ take (length (payload ch)) (payload ch)"
      using Some re by (simp add: io_Copy_def)
    then show ?thesis ..
  qed
qed

lemma sint_Second: "sint Second = 1000000000"
  by (simp add: Second_def)

lemma sint_Second_mult:
  assumes "- 9223372036 \<le> sint tmo" and "sint tmo \<le> 9223372036"
  shows "sint (Second * tmo) = 1000000000 * sint tmo"
proof -
  have "sint (Second * tmo) = signed_take_bit 63 (sint Second * sint tmo)"
    by (simp add: sint_word_ariths)
  also have "\<dots> = signed_take_bit 63 (1000000000 * sint tmo)"
    by (simp add: sint_Second)
  also have "\<dots> = 1000000000 * sint tmo"
    using assms by (intro signed_take_bit_int_eq_self) simp_all
  finally show ?thesis .
qed

text \<open>
  The deadline that \<open>Append\<close> leaves, on either exit after the copy, and how
  it compares with the one \<open>Prepare\<close> arms for the same timeout.
\<close>

lemma Append_rearm:
  "us_m s k = Some u \<Longrightarrow> timers s (timer u) = Some t \<Longrightarrow>
     timers (snd (snd (Append k ch dst s))) (timer u)
       = Some (t\<lparr>when := Some (when_ns (now s) (timeout u))\<rparr>)"
  by (simp add: Append_active)

lemma rearm_differs:
  assumes "0 < sint tmo" and "sint tmo \<le> 9223372036"
  shows "when_ns c (Second * tmo) = c + 1000000000 * sint tmo"
    and "when_ns c tmo = c + sint tmo"
    and "when_ns c (Second * tmo) \<noteq> when_ns c tmo"
  using assms sint_Second_mult [of tmo] by (simp_all add: when_ns_def)

subsection \<open>The example run\<close>

lemma demo_prepared_eq:
  "demo_prepared =
     \<lparr>us_m = [1 \<mapsto> \<lparr>timeout = 2, timer = 0\<rparr>],
      timers = [0 \<mapsto> \<lparr>when = Some 2000000000, f_key = 1, f_cb = ''onExpire''\<rparr>],
      next_timer = Suc 0, now = 0, calls = []\<rparr>"
  by (simp add: sched_defs demo_defs)

lemma demo_prepared_active: "us_m demo_prepared 1 = Some \<lparr>timeout = 2, timer = 0\<rparr>"
  by (simp add: demo_prepared_eq)

lemma demo_prepared_timer:
  "timers demo_prepared 0 = Some \<lparr>when = Some 2000000000, f_key = 1, f_cb = ''onExpire''\<rparr>"
  by (simp add: demo_prepared_eq)



section \<open>The claims\<close>

text \<open>
  C1. The claim: every \<open>Append\<close> on an active key rearms the timer for the
  duration that \<open>Prepare\<close> armed, the timeout counted in seconds. The code
  at \<open>Prepare 1 2 cb\<close> followed by \<open>Append 1\<close>: \<open>Prepare\<close> arms the timer
  for \<open>Second * 2\<close>, a deadline of 2000000000 ns, and the deferred
  \<open>Reset (timeout u)\<close> of a successful \<open>Append\<close> at the same clock arms it
  for the stored value 2, a deadline of 2 ns.
\<close>

theorem Append_rearms_for_nanoseconds:
  "timers demo_prepared 0 = Some \<lparr>when = Some 2000000000, f_key = 1, f_cb = ''onExpire''\<rparr> \<and>
   fst (Append 1 demo_chunk demo_sink demo_prepared) = None \<and>
   timers (snd (snd (Append 1 demo_chunk demo_sink demo_prepared))) 0
     = Some \<lparr>when = Some 2, f_key = 1, f_cb = ''onExpire''\<rparr>"
  by (simp add: demo_prepared_eq sched_defs demo_chunk_def demo_sink_def io_Copy_def when_ns_def)

text \<open>
  C2. The claim: appends that arrive less than the timeout apart keep the
  callback from ever running. The code with a timeout of 2 and an append
  every second: nothing expires during the first second and the first
  \<open>Append\<close> succeeds, but it rearms the timer for 2 ns, so during the next
  second the timer fires, the callback runs and the session is gone before
  the second \<open>Append\<close>.
\<close>

theorem Append_every_second_expires:
  "calls (sleep 1000000000 demo_prepared) = [] \<and>
   fst (Append 1 demo_chunk demo_sink (sleep 1000000000 demo_prepared)) = None \<and>
   calls (sleep 1000000000
            (snd (snd (Append 1 demo_chunk demo_sink (sleep 1000000000 demo_prepared)))))
     = [(''onExpire'', 1, None)] \<and>
   us_m (sleep 1000000000
            (snd (snd (Append 1 demo_chunk demo_sink (sleep 1000000000 demo_prepared))))) 1
     = None"
  by (simp add: demo_prepared_eq sleep_def fire_due_def sched_defs demo_chunk_def demo_sink_def
      io_Copy_def when_ns_def)





text \<open>
  C5. \<open>Prepare\<close> on a key that is active returns the error "upload key already
  exists" and leaves the whole state as it was: no session is created, no
  timer is allocated or armed, the session of the key keeps its timeout and
  its timer. \<open>Prepare\<close> returns an error exactly when the key is active.
\<close>

theorem Prepare_duplicate_key:
  "(us_m s k \<noteq> None \<longrightarrow>
      Prepare k tmo cb s = (Some (New ''upload key already exists''), s)) \<and>
   (fst (Prepare k tmo cb s) \<noteq> None \<longleftrightarrow> us_m s k \<noteq> None)"
  by (auto simp: Prepare_def AfterFunc_def split: option.splits prod.splits)

theorem Prepare_duplicate_key_witness:
  "us_m demo_prepared 1 \<noteq> None \<and>
   Prepare 1 7 ''other'' demo_prepared = (Some (New ''upload key already exists''), demo_prepared)"
  using Prepare_duplicate_key [of demo_prepared 1 7 "''other''"] demo_prepared_active by simp

text \<open>
  C6. On a key without a session, \<open>Append\<close> and \<open>Finish\<close> both return the
  error "upload key does not exist"; the state they return is the state they
  were given and the sink is the sink it was given, so nothing was copied. A
  key is without a session in a new scheduler, after \<open>Finish\<close> and after its
  timer's function has run.
\<close>

theorem unknown_key_rejected:
  "(us_m s k = None \<longrightarrow>
      Append k ch dst s = (Some (New ''upload key does not exist''), dst, s) \<and>
      Finish k s = (Some (New ''upload key does not exist''), s)) \<and>
   us_m (NewScheduler :: ('k, 'c) sched) k = None \<and>
   us_m (snd (Finish k s)) k = None \<and>
   us_m (timer_f k cb s) k = None"
  by (simp add: Append_def Finish_def timer_f_def timer_Stop_def NewScheduler_def
      split: option.splits)

theorem unknown_key_rejected_witness:
  "us_m (snd (Finish 1 demo_prepared)) 1 = None \<and>
   Append 1 demo_chunk demo_sink (snd (Finish 1 demo_prepared))
     = (Some (New ''upload key does not exist''), demo_sink, snd (Finish 1 demo_prepared)) \<and>
   Finish 1 (snd (Finish 1 demo_prepared))
     = (Some (New ''upload key does not exist''), snd (Finish 1 demo_prepared))"
  using unknown_key_rejected [of "snd (Finish 1 demo_prepared)" 1 demo_chunk demo_sink "''onExpire''"]
    unknown_key_rejected [of demo_prepared 1 demo_chunk demo_sink "''onExpire''"]
  by (elim conjE) simp

text \<open>
  C7. The claim: when the copy fails, \<open>Append\<close> returns the wrapped error, the
  session stays and the timer is rearmed for the full timeout. The code at a
  session prepared with timeout 2 and a sink that fails after one byte: the
  wrapped error is returned and the session stays, but the timer is rearmed
  for 2 ns instead of 2 s, and the callback has run one second after the
  failed call.
\<close>

theorem failed_Append_rearms_for_nanoseconds:
  "fst (Append 1 demo_chunk full_sink demo_prepared)
     = Some (Wrap ''unable to append chunk to destination file'' (New ''no space left on device'')) \<and>
   us_m (snd (snd (Append 1 demo_chunk full_sink demo_prepared))) 1
     = Some \<lparr>timeout = 2, timer = 0\<rparr> \<and>
   timers (snd (snd (Append 1 demo_chunk full_sink demo_prepared))) 0
     = Some \<lparr>when = Some 2, f_key = 1, f_cb = ''onExpire''\<rparr> \<and>
   calls (sleep 1000000000 (snd (snd (Append 1 demo_chunk full_sink demo_prepared))))
     = [(''onExpire'', 1, None)]"
  by (simp add: demo_prepared_eq sleep_def fire_due_def sched_defs demo_chunk_def full_sink_def
      io_Copy_def when_ns_def)

text \<open>
  C8. \<open>Finish\<close> on an active key returns no error, stops the session's timer
  (it is no longer armed, every other timer is as before) and removes the
  session from the registry, changing nothing else; a second \<open>Finish\<close> on the
  state it leaves returns the error "upload key does not exist" and leaves
  that state as it is.
\<close>

theorem Finish_active:
  "us_m s k = Some u \<Longrightarrow>
     (case Finish k s of (e, s') \<Rightarrow>
        e = None \<and>
        us_m s' = (us_m s)(k := None) \<and>
        timers s' = (timers s)(timer u := map_option (\<lambda>t. t\<lparr>when := None\<rparr>) (timers s (timer u))) \<and>
        \<not> due (timer u) s' \<and>
        next_timer s' = next_timer s \<and> now s' = now s \<and> calls s' = calls s \<and>
        Finish k s' = (Some (New ''upload key does not exist''), s'))"
  by (simp add: Finish_def timer_Stop_def due_def split: option.splits)

theorem Finish_active_witness:
  "us_m demo_prepared 1 = Some \<lparr>timeout = 2, timer = 0\<rparr> \<and>
   fst (Finish 1 demo_prepared) = None \<and>
   us_m (snd (Finish 1 demo_prepared)) 1 = None \<and>
   timers (snd (Finish 1 demo_prepared)) 0
     = Some \<lparr>when = None, f_key = 1, f_cb = ''onExpire''\<rparr> \<and>
   fst (Finish 1 (snd (Finish 1 demo_prepared))) = Some (New ''upload key does not exist'')"
  using Finish_active [of demo_prepared 1 "\<lparr>timeout = 2, timer = 0\<rparr>"]
    demo_prepared_active demo_prepared_timer
  by (simp split: prod.splits)

text \<open>
  C9, as the code has it. \<open>Prepare\<close> checks nothing about the timeout: on a
  key without a session it succeeds for every timeout and arms a timer for
  \<open>Second * timeout\<close>, a product that wraps around in 64 bits. For a timeout
  from -9223372036 to 0 the product does not wrap, the duration is not
  positive, and the timer is due as soon as \<open>Prepare\<close> has returned: firing it
  removes the session and invokes the callback with no error.
\<close>

theorem Prepare_any_timeout:
  "us_m s k = None \<Longrightarrow>
     (case Prepare k tmo cb s of (e, s') \<Rightarrow>
        e = None \<and>
        us_m s' k = Some \<lparr>timeout = tmo, timer = next_timer s\<rparr> \<and>
        timers s' (next_timer s)
          = Some \<lparr>when = Some (when_ns (now s) (Second * tmo)), f_key = k, f_cb = cb\<rparr> \<and>
        (- 9223372036 \<le> sint tmo \<and> sint tmo \<le> 0 \<longrightarrow>
           sint (Second * tmo) \<le> 0 \<and>
           due (next_timer s) s' \<and>
           us_m (fire (next_timer s) s') k = None \<and>
           calls (fire (next_timer s) s') = calls s @ [(cb, k, None)]))"
proof -
  assume n: "us_m s k = None"
  have "sint (Second * tmo) \<le> 0" if "- 9223372036 \<le> sint tmo" "sint tmo \<le> 0"
    using sint_Second_mult [of tmo] that by simp
  then show ?thesis
    by (simp add: Prepare_absent [OF n] when_ns_def due_def fire_def timer_f_def Finish_def
        timer_Stop_def)
qed

theorem Prepare_any_timeout_witness:
  "us_m (NewScheduler :: (nat, string) sched) 1 = None \<and>
   - 9223372036 \<le> sint (- 5 :: Duration) \<and> sint (- 5 :: Duration) \<le> 0 \<and>
   fst (Prepare 1 (- 5) ''onExpire'' (NewScheduler :: (nat, string) sched)) = None \<and>
   due 0 (snd (Prepare 1 (- 5) ''onExpire'' (NewScheduler :: (nat, string) sched))) \<and>
   calls (fire 0 (snd (Prepare 1 (- 5) ''onExpire'' (NewScheduler :: (nat, string) sched))))
     = [(''onExpire'', 1, None)]"
proof -
  have a: "us_m (NewScheduler :: (nat, string) sched) 1 = None"
    by (simp add: NewScheduler_def)
  have b: "- 9223372036 \<le> sint (- 5 :: Duration) \<and> sint (- 5 :: Duration) \<le> 0"
    by simp
  have c: "next_timer (NewScheduler :: (nat, string) sched) = 0"
          "calls (NewScheduler :: (nat, string) sched) = []"
    by (simp_all add: NewScheduler_def)
  from Prepare_any_timeout [OF a, of "- 5" "''onExpire''"] a b c
  show ?thesis by (simp split: prod.splits)
qed

text \<open>
  C9, as the claim states it, fails for a negative timeout whose product with
  \<open>Second\<close> wraps: for -9223372037 the armed duration is 9223372036709551616
  ns, which is positive, and the timer is not due after \<open>Prepare\<close>.
\<close>

theorem Prepare_negative_timeout_counterexample:
  "sint (- 9223372037 :: Duration) < 0 \<and>
   fst (Prepare 1 (- 9223372037) ''onExpire'' (NewScheduler :: (nat, string) sched)) = None \<and>
   sint (Second * (- 9223372037)) = 9223372036709551616 \<and>
   timers (snd (Prepare 1 (- 9223372037) ''onExpire'' (NewScheduler :: (nat, string) sched))) 0
     = Some \<lparr>when = Some 9223372036709551616, f_key = 1, f_cb = ''onExpire''\<rparr> \<and>
   \<not> due 0 (snd (Prepare 1 (- 9223372037) ''onExpire'' (NewScheduler :: (nat, string) sched)))"
  by (simp add: Prepare_def AfterFunc_def NewScheduler_def when_ns_def Second_def due_def)

text \<open>
  C10. Whatever the key, the chunk and the sink, and whether the copy
  succeeds or fails, \<open>Append\<close> leaves the registry (so the set of active keys,
  every stored timeout and every timer pointer), the allocation counter, the
  clock and the callback log as they were. In the timer store nothing but
  armed deadlines changes, and only for the timer of the session of the key;
  the sink has grown by a prefix of the chunk.
\<close>

theorem Append_frame:
  "case Append k ch dst s of (e, dst', s') \<Rightarrow>
     us_m s' = us_m s \<and> next_timer s' = next_timer s \<and> now s' = now s \<and>
     calls s' = calls s \<and>
     (\<forall>p. map_option (\<lambda>t. t\<lparr>when := None\<rparr>) (timers s' p)
            = map_option (\<lambda>t. t\<lparr>when := None\<rparr>) (timers s p)) \<and>
     (\<forall>p. (\<forall>u. us_m s k = Some u \<longrightarrow> p \<noteq> timer u) \<longrightarrow> timers s' p = timers s p) \<and>
     (\<exists>n. written dst' = written dst @ take n (payload ch))"
proof (cases "us_m s k")
  case None
  have "written dst = written dst @ take 0 (payload ch)" by simp
  then have "\<exists>n. written dst = written dst @ take n (payload ch)" ..
  then show ?thesis by (simp add: Append_absent [OF None])
next
  case (Some u)
  obtain e dst' where c: "io_Copy dst ch = (e, dst')" by (cases "io_Copy dst ch")
  have w: "\<exists>n. written dst' = written dst @ take n (payload ch)"
    using io_Copy_written [of dst ch] c by simp
  show ?thesis using Some c w
    by (cases e)
       (auto simp: Append_def timer_Stop_def timer_Reset_def option.map_comp comp_def Let_def)
qed

theorem Append_frame_witness:
  "us_m (snd (snd (Append 1 demo_chunk full_sink demo_prepared))) = us_m demo_prepared \<and>
   timers (snd (snd (Append 1 demo_chunk full_sink demo_prepared))) 3 = timers demo_prepared 3 \<and>
   map_option (\<lambda>t. t\<lparr>when := None\<rparr>) (timers (snd (snd (Append 1 demo_chunk full_sink demo_prepared))) 0)
     = Some \<lparr>when = None, f_key = 1, f_cb = ''onExpire''\<rparr> \<and>
   calls (snd (snd (Append 1 demo_chunk full_sink demo_prepared))) = []"
proof -
  obtain e dst' s' where a: "Append 1 demo_chunk full_sink demo_prepared = (e, dst', s')"
    by (cases "Append 1 demo_chunk full_sink demo_prepared") auto
  have n: "\<forall>u. us_m demo_prepared 1 = Some u \<longrightarrow> 3 \<noteq> timer u"
    by (simp add: demo_prepared_eq)
  from Append_frame [where k = 1 and ch = demo_chunk and dst = full_sink and s = demo_prepared] a n
  show ?thesis by (simp add: demo_prepared_timer) (simp add: demo_prepared_eq)
qed

end
